theory Spec2Isabelle
  imports Complex_Main
begin

section \<open>The indicator engine and the signal rules of the trading assistant\<close>

text \<open>
  The development embeds \<^verbatim>\<open>src/python/engine.py\<close> (the five indicator functions) and
  the part of \<^verbatim>\<open>analyze_stock\<close> in \<^verbatim>\<open>src/python/backend.py\<close> that turns a price array
  into levels and labels.

  Numbers. The source computes in IEEE binary64 (\<^verbatim>\<open>np.float64\<close> and Python floats).
  Here a price is a \<^typ>\<open>real\<close>: arithmetic is exact, there is no rounding, no overflow
  and no NaN. Every statement below is therefore a statement about the program read in
  exact arithmetic. Comparisons, the control flow, the order of the array accesses and
  the places where the source could raise are modelled as written.

  Failures. Whatever the source can raise, or turn into \<^verbatim>\<open>inf\<close>/\<^verbatim>\<open>nan\<close>, is a value:
  an out-of-range index, the square root of a negative number, \<^verbatim>\<open>min\<close>/\<^verbatim>\<open>max\<close> of
  an empty array, a Python float division by zero, and a numpy division by zero or mean
  of nothing (which yield \<^verbatim>\<open>inf\<close>/\<^verbatim>\<open>nan\<close> with a warning rather than raising).
\<close>

subsection \<open>Python and numpy primitives\<close>

datatype py_error = IndexError | ValueError | ZeroDivisionError | NonFinite

definition rbind :: "py_error + 'a \<Rightarrow> ('a \<Rightarrow> py_error + 'b) \<Rightarrow> py_error + 'b" where
  "rbind m f = (case m of Inl e \<Rightarrow> Inl e | Inr v \<Rightarrow> f v)"

text \<open>\<^verbatim>\<open>a[i]\<close> on a one-dimensional array: a negative index counts from the end.\<close>

definition getitem :: "real list \<Rightarrow> int \<Rightarrow> py_error + real" where
  "getitem a i =
     (let n = int (length a);
          j = (if i < 0 then i + n else i)
      in if 0 \<le> j \<and> j < n then Inr (a ! nat j) else Inl IndexError)"

text \<open>\<^verbatim>\<open>range(lo, hi)\<close>: the integers from \<open>lo\<close> up to \<open>hi - 1\<close>.\<close>

definition py_range :: "int \<Rightarrow> int \<Rightarrow> int list" where
  "py_range lo hi = [lo..hi - 1]"

text \<open>
  \<^verbatim>\<open>for i in <indices>: <body>\<close>, with the variables the body assigns as the state
  \<open>s\<close>. The first failing iteration ends the loop with its error.
\<close>

fun for_loop :: "('s \<Rightarrow> int \<Rightarrow> py_error + 's) \<Rightarrow> 's \<Rightarrow> int list \<Rightarrow> py_error + 's" where
  "for_loop body s [] = Inr s"
| "for_loop body s (i # rest) = rbind (body s i) (\<lambda>s'. for_loop body s' rest)"

text \<open>\<^verbatim>\<open>np.mean\<close>: sum over count; of an empty array it is \<^verbatim>\<open>nan\<close>.\<close>

definition np_mean :: "real list \<Rightarrow> py_error + real" where
  "np_mean a = (if a = [] then Inl NonFinite else Inr (sum_list a / real (length a)))"

text \<open>\<^verbatim>\<open>math.sqrt\<close> raises \<^verbatim>\<open>ValueError\<close> on a negative argument.\<close>

definition math_sqrt :: "real \<Rightarrow> py_error + real" where
  "math_sqrt x = (if x < 0 then Inl ValueError else Inr (sqrt x))"

text \<open>Division of two Python floats raises on a zero divisor.\<close>

definition py_truediv :: "real \<Rightarrow> real \<Rightarrow> py_error + real" where
  "py_truediv x y = (if y = 0 then Inl ZeroDivisionError else Inr (x / y))"

text \<open>Division with a \<^verbatim>\<open>np.float64\<close> operand gives \<^verbatim>\<open>inf\<close> or \<^verbatim>\<open>nan\<close> on a zero divisor.\<close>

definition np_truediv :: "real \<Rightarrow> real \<Rightarrow> py_error + real" where
  "np_truediv x y = (if y = 0 then Inl NonFinite else Inr (x / y))"

text \<open>\<^verbatim>\<open>a.min()\<close> and \<^verbatim>\<open>a.max()\<close> raise \<^verbatim>\<open>ValueError\<close> on an empty array.\<close>

definition np_min :: "real list \<Rightarrow> py_error + real" where
  "np_min a = (case a of [] \<Rightarrow> Inl ValueError | x # rest \<Rightarrow> Inr (foldl min x rest))"

definition np_max :: "real list \<Rightarrow> py_error + real" where
  "np_max a = (case a of [] \<Rightarrow> Inl ValueError | x # rest \<Rightarrow> Inr (foldl max x rest))"

text \<open>
  \<^verbatim>\<open>x and y\<close> evaluates \<open>y\<close> only when \<open>x\<close> is true; \<open>lt_at a i j\<close> is the
  comparison \<^verbatim>\<open>a[i] < a[j]\<close>, \<open>gt_at a i j\<close> is \<^verbatim>\<open>a[i] > a[j]\<close>.
\<close>

definition py_and :: "py_error + bool \<Rightarrow> py_error + bool \<Rightarrow> py_error + bool" where
  "py_and x y = rbind x (\<lambda>b. if b then y else Inr False)"

definition lt_at :: "real list \<Rightarrow> int \<Rightarrow> int \<Rightarrow> py_error + bool" where
  "lt_at a i j = rbind (getitem a i) (\<lambda>x. rbind (getitem a j) (\<lambda>y. Inr (x < y)))"

definition gt_at :: "real list \<Rightarrow> int \<Rightarrow> int \<Rightarrow> py_error + bool" where
  "gt_at a i j = rbind (getitem a i) (\<lambda>x. rbind (getitem a j) (\<lambda>y. Inr (x > y)))"

subsection \<open>engine.py\<close>

text \<open>
  \<^verbatim>\<open>np.asarray(prices, dtype=np.float64).flatten()\<close> leaves a one-dimensional sequence
  of numbers as it is, so \<open>prices_array\<close> is \<open>prices\<close>.
\<close>

definition calculate_volatility :: "real list \<Rightarrow> py_error + real" where
  "calculate_volatility prices =
     (if length prices = 0 then Inr 0
      else rbind (np_mean prices) (\<lambda>mean.
           rbind (np_mean (map (\<lambda>p. (p - mean)\<^sup>2) prices)) (\<lambda>variance.
           math_sqrt variance)))"

definition calculate_sma :: "real list \<Rightarrow> py_error + real" where
  "calculate_sma prices = (if length prices = 0 then Inr 0 else np_mean prices)"

definition ema_body :: "real list \<Rightarrow> real \<Rightarrow> real \<Rightarrow> int \<Rightarrow> py_error + real" where
  "ema_body prices_array alpha ema i =
     rbind (getitem prices_array i) (\<lambda>p. Inr (alpha * p + (1 - alpha) * ema))"

definition calculate_ema :: "real list \<Rightarrow> real \<Rightarrow> py_error + real" where
  "calculate_ema prices alpha =
     (if length prices = 0 then Inr 0
      else rbind (getitem prices 0) (\<lambda>ema.
           for_loop (ema_body prices alpha) ema (py_range 1 (int (length prices)))))"

text \<open>The loop of \<^verbatim>\<open>calculate_rsi\<close>; its state is the pair \<open>(gain, loss)\<close>.\<close>

definition rsi_body :: "real list \<Rightarrow> real \<times> real \<Rightarrow> int \<Rightarrow> py_error + real \<times> real" where
  "rsi_body prices_array s i =
     rbind (getitem prices_array i) (\<lambda>cur.
     rbind (getitem prices_array (i - 1)) (\<lambda>prev.
       let diff = cur - prev
       in if diff > 0 then Inr (fst s + diff, snd s) else Inr (fst s, snd s - diff)))"

definition calculate_rsi :: "real list \<Rightarrow> py_error + real" where
  "calculate_rsi prices =
     (if length prices < 2 then Inr 50
      else rbind (for_loop (rsi_body prices) (0, 0) (py_range 1 (int (length prices)))) (\<lambda>s.
           let gain = fst s; loss = snd s
           in if loss = 0 then Inr 100
              else rbind (np_truediv gain loss) (\<lambda>rs.
                   rbind (np_truediv 100 (1 + rs)) (\<lambda>q. Inr (100 - q)))))"

text \<open>
  The loop of \<^verbatim>\<open>find_support_resistance\<close>; its state is the pair
  \<open>(supports, resistances)\<close>, and \<^verbatim>\<open>append\<close> adds at the end. The two \<^verbatim>\<open>if\<close>
  statements are independent of each other.
\<close>

definition sr_body ::
  "real list \<Rightarrow> real list \<times> real list \<Rightarrow> int \<Rightarrow> py_error + real list \<times> real list" where
  "sr_body prices_array s i =
     rbind (py_and (lt_at prices_array i (i - 1)) (lt_at prices_array i (i + 1))) (\<lambda>is_min.
     rbind (if is_min then rbind (getitem prices_array i) (\<lambda>x. Inr (fst s @ [x]))
            else Inr (fst s)) (\<lambda>supports.
     rbind (py_and (gt_at prices_array i (i - 1)) (gt_at prices_array i (i + 1))) (\<lambda>is_max.
     rbind (if is_max then rbind (getitem prices_array i) (\<lambda>x. Inr (snd s @ [x]))
            else Inr (snd s)) (\<lambda>resistances.
     Inr (supports, resistances)))))"

definition find_support_resistance :: "real list \<Rightarrow> py_error + real list \<times> real list" where
  "find_support_resistance prices =
     (if length prices < 3 then Inr ([], [])
      else for_loop (sr_body prices) ([], []) (py_range 1 (int (length prices) - 1)))"

subsection \<open>backend.py: levels and signals in analyze_stock\<close>

definition trend :: "real \<Rightarrow> real \<Rightarrow> string" where
  "trend ema sma =
     (if ema > 1.01 * sma then ''bullish''
      else if ema < 0.99 * sma then ''bearish'' else ''neutral'')"

definition momentum_status :: "real \<Rightarrow> string" where
  "momentum_status rsi =
     (if rsi > 70 then ''Overbought'' else if rsi < 30 then ''Oversold'' else ''neutral'')"

definition risk_ratio :: "real \<Rightarrow> real \<Rightarrow> py_error + real" where
  "risk_ratio vol sma = (if sma > 0 then py_truediv vol sma else Inr 0)"

definition risk :: "real \<Rightarrow> string" where
  "risk ratio =
     (if ratio > 0.08 then ''High Risk''
      else if ratio > 0.04 then ''Medium Risk'' else ''Low Risk'')"

definition final_signal :: "string \<Rightarrow> real \<Rightarrow> string \<Rightarrow> string" where
  "final_signal trend_label rsi risk_label =
     (if trend_label = ''bullish'' \<and> rsi < 60 \<and> risk_label \<noteq> ''High Risk'' then ''BUY''
      else if trend_label = ''bearish'' \<and> rsi > 40 then ''SELL'' else ''HOLD'')"

definition support_level :: "real list \<Rightarrow> real list \<Rightarrow> py_error + real" where
  "support_level supports prices =
     (if length supports > 0 then np_min supports else np_min prices)"

definition resistance_level :: "real list \<Rightarrow> real list \<Rightarrow> py_error + real" where
  "resistance_level resistances prices =
     (if length resistances > 0 then np_max resistances else np_max prices)"

text \<open>
  The values \<^verbatim>\<open>analyze_stock\<close> holds once the signals are computed, before they are
  rounded to two decimals for the response.
\<close>

record analysis =
  r_volatility :: real
  r_sma :: real
  r_ema :: real
  r_rsi :: real
  r_support :: real
  r_resistance :: real
  r_trend :: string
  r_momentum :: string
  r_risk :: string
  r_signal :: string

text \<open>
  \<^verbatim>\<open>analyze_stock\<close> from the extracted close prices to the signals: \<open>Inr None\<close> is
  the early \<^verbatim>\<open>return None\<close> on an empty price array. The download before this
  part and the packaging of the response after it are not modelled.
\<close>

definition analyze_stock :: "real list \<Rightarrow> py_error + analysis option" where
  "analyze_stock prices =
     (if length prices = 0 then Inr None
      else rbind (calculate_volatility prices) (\<lambda>vol.
           rbind (calculate_sma prices) (\<lambda>sma.
           rbind (calculate_ema prices 0.1) (\<lambda>ema.
           rbind (calculate_rsi prices) (\<lambda>rsi.
           rbind (find_support_resistance prices) (\<lambda>sr.
           rbind (support_level (fst sr) prices) (\<lambda>support.
           rbind (resistance_level (snd sr) prices) (\<lambda>resistance.
           rbind (risk_ratio vol sma) (\<lambda>ratio.
           Inr (Some \<lparr>r_volatility = vol, r_sma = sma, r_ema = ema, r_rsi = rsi,
                      r_support = support, r_resistance = resistance,
                      r_trend = trend ema sma,
                      r_momentum = momentum_status rsi,
                      r_risk = risk ratio,
                      r_signal = final_signal (trend ema sma) rsi (risk ratio)\<rparr>))))))))))"

subsection \<open>The indicators as the specification words them\<close>

text \<open>
  These definitions follow the wording of the specification, not the code; the theorems
  below relate them to the functions above. \<open>spec_ema prices alpha i\<close> is the
  recurrence value \<open>ema\<^sub>i\<close>; \<open>spec_deltas\<close> lists the consecutive differences
  \<open>prices[i] - prices[i-1]\<close> for \<open>i = 1..n-1\<close>; \<open>spec_interior\<close> lists the interior
  indices \<open>1..n-2\<close>.
\<close>

primrec spec_ema :: "real list \<Rightarrow> real \<Rightarrow> nat \<Rightarrow> real" where
  "spec_ema prices alpha 0 = prices ! 0"
| "spec_ema prices alpha (Suc i) = alpha * prices ! Suc i + (1 - alpha) * spec_ema prices alpha i"

definition spec_deltas :: "real list \<Rightarrow> real list" where
  "spec_deltas prices = map (\<lambda>i. prices ! i - prices ! (i - 1)) [1..<length prices]"

definition spec_gain :: "real list \<Rightarrow> real" where
  "spec_gain prices = sum_list (filter (\<lambda>d. d > 0) (spec_deltas prices))"

definition spec_loss :: "real list \<Rightarrow> real" where
  "spec_loss prices = sum_list (map abs (filter (\<lambda>d. d < 0) (spec_deltas prices)))"

definition spec_is_support :: "real list \<Rightarrow> nat \<Rightarrow> bool" where
  "spec_is_support prices i \<longleftrightarrow> prices ! i < prices ! (i - 1) \<and> prices ! i < prices ! (i + 1)"

definition spec_is_resistance :: "real list \<Rightarrow> nat \<Rightarrow> bool" where
  "spec_is_resistance prices i \<longleftrightarrow> prices ! i > prices ! (i - 1) \<and> prices ! i > prices ! (i + 1)"

definition spec_interior :: "real list \<Rightarrow> nat list" where
  "spec_interior prices = [1..<length prices - 1]"

section \<open>Closed forms: no iteration fails\<close>

lemma rbind_Inr [simp]: "rbind (Inr v) f = f v"
  by (simp add: rbind_def)

lemma rbind_Inl [simp]: "rbind (Inl e) f = Inl e"
  by (simp add: rbind_def)

lemma getitem_nat: "i < length a \<Longrightarrow> getitem a (int i) = Inr (a ! i)"
  by (simp add: getitem_def)

lemma getitem_pred: "0 < i \<Longrightarrow> i < length a \<Longrightarrow> getitem a (int i - 1) = Inr (a ! (i - 1))"
  using getitem_nat [of "i - 1" a] by simp

lemma getitem_succ: "i + 1 < length a \<Longrightarrow> getitem a (int i + 1) = Inr (a ! (i + 1))"
  by (simp add: getitem_def nat_add_distrib)

lemma py_range_nat: "py_range (int lo) (int hi) = map int [lo..<hi]"
proof (induction hi)
  case 0
  then show ?case by (simp add: py_range_def)
next
  case (Suc hi)
  show ?case
  proof (cases "lo \<le> hi")
    case True
    then have "[int lo..int (Suc hi) - 1] = [int lo..int hi - 1] @ [int hi]"
      using upto_rec2 [of "int lo" "int hi"] by simp
    with Suc True show ?thesis by (simp add: py_range_def)
  next
    case False
    then show ?thesis by (simp add: py_range_def)
  qed
qed

lemma py_range_from_1: "py_range 1 (int n) = map int [1..<n]"
  using py_range_nat [of 1 n] by simp

lemma py_range_interior: "py_range 1 (int n - 1) = map int [1..<n - 1]"
proof (cases n)
  case 0
  then show ?thesis by (simp add: py_range_def)
next
  case (Suc m)
  then show ?thesis using py_range_nat [of 1 m] by simp
qed

lemma for_loop_nat:
  assumes "\<And>s i. i \<in> set idxs \<Longrightarrow> body s (int i) = Inr (g s i)"
  shows "for_loop body s (map int idxs) = Inr (foldl g s idxs)"
  using assms by (induction idxs arbitrary: s) simp_all

subsection \<open>sma, volatility\<close>

lemma calculate_sma_eq:
  "calculate_sma prices = Inr (if prices = [] then 0 else sum_list prices / real (length prices))"
  by (simp add: calculate_sma_def np_mean_def)

lemma sum_list_squares_nonneg: "0 \<le> sum_list (map (\<lambda>p. (p - m)\<^sup>2) (prices :: real list))"
  by (rule sum_list_nonneg) auto

lemma calculate_volatility_eq:
  "calculate_volatility prices =
     Inr (if prices = [] then 0
          else sqrt (sum_list (map (\<lambda>p. (p - sum_list prices / real (length prices))\<^sup>2) prices)
                     / real (length prices)))"
proof (cases "prices = []")
  case True
  then show ?thesis by (simp add: calculate_volatility_def)
next
  case False
  have "0 \<le> sum_list (map (\<lambda>p. (p - sum_list prices / real (length prices))\<^sup>2) prices)
               / real (length prices)"
    using sum_list_squares_nonneg by simp
  with False show ?thesis
    by (simp add: calculate_volatility_def np_mean_def math_sqrt_def)
qed

subsection \<open>ema\<close>

lemma ema_fold:
  "foldl (\<lambda>ema i. alpha * prices ! i + (1 - alpha) * ema) (prices ! 0) [Suc 0..<Suc k]
     = spec_ema prices alpha k"
  by (induction k) simp_all

lemma calculate_ema_eq:
  assumes "prices \<noteq> []"
  shows "calculate_ema prices alpha = Inr (spec_ema prices alpha (length prices - 1))"
proof -
  from assms obtain k where k: "length prices = Suc k"
    by (cases prices) simp_all
  have body: "ema_body prices alpha s (int i) = Inr (alpha * prices ! i + (1 - alpha) * s)"
    if "i \<in> set [1..<Suc k]" for s i
  proof -
    from that k have "i < length prices" by auto
    then show ?thesis by (simp add: ema_body_def getitem_nat)
  qed
  have "for_loop (ema_body prices alpha) (prices ! 0) (map int [1..<Suc k])
          = Inr (foldl (\<lambda>ema i. alpha * prices ! i + (1 - alpha) * ema) (prices ! 0) [1..<Suc k])"
    by (rule for_loop_nat) (rule body)
  moreover have "getitem prices 0 = Inr (prices ! 0)"
    using getitem_nat [of 0 prices] k by simp
  ultimately show ?thesis
    using k py_range_from_1 [of "Suc k"] by (simp add: calculate_ema_def ema_fold del: upt_Suc)
qed

subsection \<open>rsi\<close>

lemma rsi_fold:
  fixes prices :: "real list"
  shows
  "foldl (\<lambda>s i. let diff = prices ! i - prices ! (i - 1)
                 in if diff > 0 then (fst s + diff, snd s) else (fst s, snd s - diff)) s idxs
   = (fst s + sum_list (filter (\<lambda>d. d > 0) (map (\<lambda>i. prices ! i - prices ! (i - 1)) idxs)),
      snd s + sum_list (map abs (filter (\<lambda>d. d < 0) (map (\<lambda>i. prices ! i - prices ! (i - 1)) idxs))))"
  by (induction idxs arbitrary: s) (auto simp: Let_def)

lemma rsi_loop:
  "for_loop (rsi_body prices) (0, 0) (py_range 1 (int (length prices)))
     = Inr (spec_gain prices, spec_loss prices)"
proof -
  have body: "rsi_body prices s (int i)
      = Inr (let diff = prices ! i - prices ! (i - 1)
             in if diff > 0 then (fst s + diff, snd s) else (fst s, snd s - diff))"
    if "i \<in> set [1..<length prices]" for s i
    using that by (simp add: rsi_body_def getitem_nat getitem_pred Let_def)
  have "for_loop (rsi_body prices) (0, 0) (map int [1..<length prices])
      = Inr (foldl (\<lambda>s i. let diff = prices ! i - prices ! (i - 1)
                 in if diff > 0 then (fst s + diff, snd s) else (fst s, snd s - diff)) (0, 0) [1..<length prices])"
    by (rule for_loop_nat) (rule body)
  then show ?thesis
    by (simp only: py_range_from_1 rsi_fold spec_gain_def spec_loss_def spec_deltas_def
        fst_conv snd_conv add_0)
qed

lemma spec_gain_nonneg: "0 \<le> spec_gain prices"
  unfolding spec_gain_def by (rule sum_list_nonneg) auto

lemma spec_loss_nonneg: "0 \<le> spec_loss prices"
  unfolding spec_loss_def by (rule sum_list_nonneg) auto

lemma calculate_rsi_eq:
  "calculate_rsi prices =
     Inr (if length prices < 2 then 50
          else if spec_loss prices = 0 then 100
          else 100 - 100 / (1 + spec_gain prices / spec_loss prices))"
proof (cases "length prices < 2")
  case True
  then show ?thesis by (simp add: calculate_rsi_def)
next
  case False
  have "0 \<le> spec_gain prices / spec_loss prices"
    using spec_gain_nonneg spec_loss_nonneg by simp
  then have "1 + spec_gain prices / spec_loss prices \<noteq> 0"
    by linarith
  with False show ?thesis
    by (simp add: calculate_rsi_def rsi_loop np_truediv_def Let_def)
qed

subsection \<open>support and resistance\<close>

lemma sr_fold:
  fixes prices :: "real list"
  shows
  "foldl (\<lambda>s i. (if spec_is_support prices i then fst s @ [prices ! i] else fst s,
                 if spec_is_resistance prices i then snd s @ [prices ! i] else snd s)) s idxs
   = (fst s @ map (nth prices) (filter (spec_is_support prices) idxs),
      snd s @ map (nth prices) (filter (spec_is_resistance prices) idxs))"
  by (induction idxs arbitrary: s) auto

lemma sr_body_eq:
  assumes "0 < i" "i + 1 < length prices"
  shows "sr_body prices s (int i)
     = Inr (if spec_is_support prices i then fst s @ [prices ! i] else fst s,
            if spec_is_resistance prices i then snd s @ [prices ! i] else snd s)"
proof -
  from assms have i: "i < length prices" by simp
  show ?thesis
    using assms i
    by (simp add: sr_body_def py_and_def lt_at_def gt_at_def getitem_nat getitem_pred
        getitem_succ spec_is_support_def spec_is_resistance_def)
qed

lemma find_support_resistance_eq:
  "find_support_resistance prices =
     Inr (map (nth prices) (filter (spec_is_support prices) (spec_interior prices)),
          map (nth prices) (filter (spec_is_resistance prices) (spec_interior prices)))"
proof (cases "length prices < 3")
  case True
  then have "spec_interior prices = []"
    by (simp add: spec_interior_def)
  with True show ?thesis by (simp add: find_support_resistance_def)
next
  case False
  have "for_loop (sr_body prices) ([], []) (map int [1..<length prices - 1])
      = Inr (foldl (\<lambda>s i. (if spec_is_support prices i then fst s @ [prices ! i] else fst s,
                 if spec_is_resistance prices i then snd s @ [prices ! i] else snd s)) ([], [])
               [1..<length prices - 1])"
    by (rule for_loop_nat, rule sr_body_eq) auto
  with False show ?thesis
    by (simp add: find_support_resistance_def py_range_interior sr_fold spec_interior_def)
qed

subsection \<open>min and max of an array\<close>

lemma foldl_min_Min: "foldl min (x :: real) rest = Min (set (x # rest))"
proof (induction rest arbitrary: x)
  case Nil
  show ?case by simp
next
  case (Cons y rest)
  have "Min (set (min x y # rest)) = Min (set (x # y # rest))"
    by (cases "rest = []") (simp_all add: min.assoc)
  with Cons show ?case by simp
qed

lemma foldl_max_Max: "foldl max (x :: real) rest = Max (set (x # rest))"
proof (induction rest arbitrary: x)
  case Nil
  show ?case by simp
next
  case (Cons y rest)
  have "Max (set (max x y # rest)) = Max (set (x # y # rest))"
    by (cases "rest = []") (simp_all add: max.assoc)
  with Cons show ?case by simp
qed

lemma np_min_eq: "a \<noteq> [] \<Longrightarrow> np_min a = Inr (Min (set a))"
  by (cases a) (simp_all add: np_min_def foldl_min_Min del: set_simps)

lemma np_max_eq: "a \<noteq> [] \<Longrightarrow> np_max a = Inr (Max (set a))"
  by (cases a) (simp_all add: np_max_def foldl_max_Max del: set_simps)

lemma support_level_eq:
  "prices \<noteq> [] \<Longrightarrow>
   support_level supports prices
     = Inr (if supports \<noteq> [] then Min (set supports) else Min (set prices))"
  by (simp add: support_level_def np_min_eq)

lemma resistance_level_eq:
  "prices \<noteq> [] \<Longrightarrow>
   resistance_level resistances prices
     = Inr (if resistances \<noteq> [] then Max (set resistances) else Max (set prices))"
  by (simp add: resistance_level_def np_max_eq)

lemma risk_ratio_eq: "risk_ratio vol sma = Inr (if sma > 0 then vol / sma else 0)"
  by (simp add: risk_ratio_def py_truediv_def)

lemma calculate_ema_total: "\<exists>v. calculate_ema prices alpha = Inr v"
proof (cases "prices = []")
  case True
  then show ?thesis by (simp add: calculate_ema_def)
next
  case False
  then show ?thesis by (simp add: calculate_ema_eq)
qed

lemma analyze_stock_closed:
  assumes "prices \<noteq> []"
  shows "\<exists>vol sma ema rsi supports resistances.
           calculate_volatility prices = Inr vol \<and>
           calculate_sma prices = Inr sma \<and>
           calculate_ema prices 0.1 = Inr ema \<and>
           calculate_rsi prices = Inr rsi \<and>
           find_support_resistance prices = Inr (supports, resistances) \<and>
           analyze_stock prices =
             Inr (Some \<lparr>r_volatility = vol, r_sma = sma, r_ema = ema, r_rsi = rsi,
                  r_support = (if supports \<noteq> [] then Min (set supports) else Min (set prices)),
                  r_resistance =
                    (if resistances \<noteq> [] then Max (set resistances) else Max (set prices)),
                  r_trend = trend ema sma,
                  r_momentum = momentum_status rsi,
                  r_risk = risk (if sma > 0 then vol / sma else 0),
                  r_signal = final_signal (trend ema sma) rsi
                               (risk (if sma > 0 then vol / sma else 0))\<rparr>)"
proof -
  obtain vol where vol: "calculate_volatility prices = Inr vol"
    using calculate_volatility_eq by blast
  obtain sma where sma: "calculate_sma prices = Inr sma"
    using calculate_sma_eq by blast
  obtain ema where ema: "calculate_ema prices 0.1 = Inr ema"
    using calculate_ema_total by blast
  obtain rsi where rsi: "calculate_rsi prices = Inr rsi"
    using calculate_rsi_eq by blast
  obtain supports resistances
    where sr: "find_support_resistance prices = Inr (supports, resistances)"
    using find_support_resistance_eq by blast
  from assms vol sma ema rsi sr
  have "analyze_stock prices =
             Inr (Some \<lparr>r_volatility = vol, r_sma = sma, r_ema = ema, r_rsi = rsi,
                  r_support = (if supports \<noteq> [] then Min (set supports) else Min (set prices)),
                  r_resistance =
                    (if resistances \<noteq> [] then Max (set resistances) else Max (set prices)),
                  r_trend = trend ema sma,
                  r_momentum = momentum_status rsi,
                  r_risk = risk (if sma > 0 then vol / sma else 0),
                  r_signal = final_signal (trend ema sma) rsi
                               (risk (if sma > 0 then vol / sma else 0))\<rparr>)"
    by (simp add: analyze_stock_def support_level_eq resistance_level_eq risk_ratio_eq)
  with vol sma ema rsi sr show ?thesis by blast
qed

subsection \<open>extrema are prices\<close>

lemma interior_index: "i \<in> set (spec_interior prices) \<Longrightarrow> 0 < i \<and> i + 1 < length prices"
  by (auto simp: spec_interior_def)

lemma interior_values: "set (map (nth prices) (filter P (spec_interior prices))) \<subseteq> set prices"
proof
  fix x
  assume "x \<in> set (map (nth prices) (filter P (spec_interior prices)))"
  then obtain i where i: "i \<in> set (spec_interior prices)" "x = prices ! i"
    by auto
  from i(1) have "i < length prices"
    using interior_index [of i prices] by simp
  with i(2) show "x \<in> set prices" by simp
qed

subsection \<open>sorted series\<close>

lemma sorted_deltas_nonneg:
  assumes "sorted prices" "d \<in> set (spec_deltas prices)"
  shows "0 \<le> d"
proof -
  from assms(2) obtain i where i: "1 \<le> i" "i < length prices" "d = prices ! i - prices ! (i - 1)"
    by (auto simp: spec_deltas_def)
  with assms(1) have "prices ! (i - 1) \<le> prices ! i"
    by (simp add: sorted_iff_nth_mono)
  with i show ?thesis by simp
qed

lemma sorted_loss_zero: "sorted prices \<Longrightarrow> spec_loss prices = 0"
proof -
  assume "sorted prices"
  then have "filter (\<lambda>d. d < 0) (spec_deltas prices) = []"
    using sorted_deltas_nonneg by (fastforce simp: filter_empty_conv)
  then show ?thesis by (simp add: spec_loss_def)
qed

lemma sorted_no_extrema:
  assumes "sorted prices"
  shows "filter (spec_is_support prices) (spec_interior prices) = []"
    and "filter (spec_is_resistance prices) (spec_interior prices) = []"
proof -
  have le: "prices ! (i - 1) \<le> prices ! i \<and> prices ! i \<le> prices ! (i + 1)"
    if "i \<in> set (spec_interior prices)" for i
    using assms interior_index [OF that] by (simp add: sorted_iff_nth_mono)
  show "filter (spec_is_support prices) (spec_interior prices) = []"
    using le by (fastforce simp: filter_empty_conv spec_is_support_def)
  show "filter (spec_is_resistance prices) (spec_interior prices) = []"
    using le by (fastforce simp: filter_empty_conv spec_is_resistance_def)
qed

lemma sorted_rsi: "sorted prices \<Longrightarrow> 2 \<le> length prices \<Longrightarrow> calculate_rsi prices = Inr 100"
  by (simp add: calculate_rsi_eq sorted_loss_zero)

lemma sorted_sr: "sorted prices \<Longrightarrow> find_support_resistance prices = Inr ([], [])"
  by (simp add: find_support_resistance_eq sorted_no_extrema)

subsection \<open>strictly decreasing series\<close>

lemma decreasing_deltas_neg:
  assumes "sorted_wrt (>) prices" "d \<in> set (spec_deltas prices)"
  shows "d < 0"
proof -
  from assms(2) obtain i where i: "1 \<le> i" "i < length prices" "d = prices ! i - prices ! (i - 1)"
    by (auto simp: spec_deltas_def)
  with assms(1) have "prices ! (i - 1) > prices ! i"
    by (simp add: sorted_wrt_iff_nth_less)
  with i show ?thesis by simp
qed

lemma decreasing_gain_zero: "sorted_wrt (>) prices \<Longrightarrow> spec_gain prices = 0"
proof -
  assume "sorted_wrt (>) prices"
  then have "filter (\<lambda>d. d > 0) (spec_deltas prices) = []"
    using decreasing_deltas_neg by (fastforce simp: filter_empty_conv)
  then show ?thesis by (simp add: spec_gain_def)
qed

lemma decreasing_loss_pos:
  assumes "sorted_wrt (>) prices" "2 \<le> length prices"
  shows "0 < spec_loss prices"
proof -
  have all: "filter (\<lambda>d. d < 0) (spec_deltas prices) = spec_deltas prices"
    using assms(1) decreasing_deltas_neg by (simp add: filter_id_conv)
  from assms(2) have "prices ! 1 - prices ! 0 \<in> set (spec_deltas prices)"
    by (force simp: spec_deltas_def)
  then obtain d where d: "d \<in> set (spec_deltas prices)" by blast
  with assms(1) have "d < 0" by (rule decreasing_deltas_neg)
  have "spec_loss prices \<noteq> 0"
  proof
    assume "spec_loss prices = 0"
    then have "sum_list (map abs (spec_deltas prices)) = 0"
      by (simp add: spec_loss_def all)
    moreover have "(sum_list (map abs (spec_deltas prices)) = 0)
        = (\<forall>x\<in>set (map abs (spec_deltas prices)). x = 0)"
      by (rule sum_list_nonneg_eq_0_iff) auto
    ultimately have "\<forall>x\<in>set (map abs (spec_deltas prices)). x = 0"
      by simp
    with d have "\<bar>d\<bar> = 0" by simp
    with \<open>d < 0\<close> show False by simp
  qed
  with spec_loss_nonneg [of prices] show ?thesis by simp
qed

lemma decreasing_rsi:
  "sorted_wrt (>) prices \<Longrightarrow> 2 \<le> length prices \<Longrightarrow> calculate_rsi prices = Inr 0"
  using decreasing_loss_pos [of prices]
  by (simp add: calculate_rsi_eq decreasing_gain_zero)

subsection \<open>constant series\<close>






section \<open>The claims\<close>







text \<open>
  C3. For every series of at least two points the loop of \<open>calculate_rsi\<close> ends with
  \<open>gain\<close> the sum of the positive consecutive differences and \<open>loss\<close> the total
  magnitude of the negative ones; the function returns \<open>100\<close> when \<open>loss = 0\<close> and
  \<open>100 - 100 / (1 + gain / loss)\<close> otherwise. For every series of fewer than two points
  it returns \<open>50\<close>.
\<close>

theorem calculate_rsi_formula:
  "(2 \<le> length prices \<longrightarrow>
      for_loop (rsi_body prices) (0, 0) (py_range 1 (int (length prices)))
        = Inr (spec_gain prices, spec_loss prices) \<and>
      calculate_rsi prices
        = Inr (if spec_loss prices = 0 then 100
               else 100 - 100 / (1 + spec_gain prices / spec_loss prices))) \<and>
   (length prices < 2 \<longrightarrow> calculate_rsi prices = Inr 50)"
  by (simp add: rsi_loop calculate_rsi_eq)

text \<open>The series \<open>[1, 3, 2]\<close> (gain \<open>2\<close>, loss \<open>1\<close>) and the one-point series \<open>[7]\<close>.\<close>

theorem calculate_rsi_formula_witness:
  "2 \<le> length [1, 3, 2 :: real] \<and> spec_gain [1, 3, 2] = 2 \<and> spec_loss [1, 3, 2] = 1 \<and>
   calculate_rsi [1, 3, 2] = Inr (200 / 3) \<and>
   length [7 :: real] < 2 \<and> calculate_rsi [7] = Inr 50"
proof -
  have g: "spec_gain [1, 3, 2] = 2"
    by (simp add: spec_gain_def spec_deltas_def upt_rec)
  have l: "spec_loss [1, 3, 2] = 1"
    by (simp add: spec_loss_def spec_deltas_def upt_rec)
  from calculate_rsi_formula [of "[1, 3, 2]"] calculate_rsi_formula [of "[7]"] g l
  show ?thesis by simp
qed

text \<open>
  C4. \<open>find_support_resistance\<close> never fails. The supports it returns are the values at
  exactly those interior indices \<open>i\<close> (\<open>1 \<le> i \<le> n - 2\<close>) whose point is strictly below
  both neighbours, the resistances the values at exactly those strictly above both, each
  listed by increasing index. No index is both; a point with an equal neighbour is
  neither; the first and last points are never interior. A series of fewer than three
  points gives two empty sequences.
\<close>

theorem find_support_resistance_extrema:
  "find_support_resistance prices =
     Inr (map (nth prices) (filter (spec_is_support prices) (spec_interior prices)),
          map (nth prices) (filter (spec_is_resistance prices) (spec_interior prices))) \<and>
   set (spec_interior prices) = {i. 1 \<le> i \<and> i + 1 < length prices} \<and>
   sorted_wrt (<) (spec_interior prices) \<and>
   \<not> (spec_is_support prices i \<and> spec_is_resistance prices i) \<and>
   (prices ! i = prices ! (i - 1) \<or> prices ! i = prices ! (i + 1) \<longrightarrow>
      \<not> spec_is_support prices i \<and> \<not> spec_is_resistance prices i) \<and>
   (length prices < 3 \<longrightarrow> find_support_resistance prices = Inr ([], []))"
proof -
  have a: "set (spec_interior prices) = {i. 1 \<le> i \<and> i + 1 < length prices}"
    by (auto simp: spec_interior_def)
  have b: "sorted_wrt (<) (spec_interior prices)"
    by (simp add: spec_interior_def)
  have c: "\<not> (spec_is_support prices i \<and> spec_is_resistance prices i)"
    by (auto simp: spec_is_support_def spec_is_resistance_def)
  have d: "prices ! i = prices ! (i - 1) \<or> prices ! i = prices ! (i + 1) \<longrightarrow>
      \<not> spec_is_support prices i \<and> \<not> spec_is_resistance prices i"
    by (auto simp: spec_is_support_def spec_is_resistance_def)
  have e: "length prices < 3 \<longrightarrow> find_support_resistance prices = Inr ([], [])"
    by (simp add: find_support_resistance_def)
  show ?thesis
    by (intro conjI find_support_resistance_eq a b c d e)
qed

text \<open>The series \<open>[1, 3, 2]\<close>, a series with a flat top, and the two-point series.\<close>

theorem find_support_resistance_extrema_witness:
  "find_support_resistance [1, 3, 2] = Inr ([], [3]) \<and>
   find_support_resistance [5, 1, 4, 4, 2, 6] = Inr ([1, 2], []) \<and>
   length [1, 2 :: real] < 3 \<and> find_support_resistance [1, 2] = Inr ([], [])"
proof -
  have i3: "spec_interior [1, 3, 2] = [1]"
    by (simp add: spec_interior_def)
  have i6: "spec_interior [5, 1, 4, 4, 2, 6] = [1, 2, 3, 4]"
    by (simp add: spec_interior_def upt_rec)
  have i2: "spec_interior [1, 2] = []"
    by (simp add: spec_interior_def)
  from find_support_resistance_extrema [of "[1, 3, 2]" 1]
    find_support_resistance_extrema [of "[5, 1, 4, 4, 2, 6]" 3]
    find_support_resistance_extrema [of "[1, 2]" 0]
  show ?thesis
    by (simp add: i2 i3 i6 spec_is_support_def spec_is_resistance_def)
qed

text \<open>
  C5. For every non-empty price series \<open>analyze_stock\<close> succeeds, and the support
  level it holds is the minimum of the detected supports when there is at least one and
  the minimum of the whole series otherwise; the resistance level is the maximum of the
  detected resistances when there is at least one and the maximum of the whole series
  otherwise.
\<close>

theorem levels_from_extrema:
  assumes "prices \<noteq> []"
  shows "\<exists>a supports resistances.
           find_support_resistance prices = Inr (supports, resistances) \<and>
           analyze_stock prices = Inr (Some a) \<and>
           r_support a = (if supports \<noteq> [] then Min (set supports) else Min (set prices)) \<and>
           r_resistance a
             = (if resistances \<noteq> [] then Max (set resistances) else Max (set prices))"
proof -
  from analyze_stock_closed [OF assms]
  obtain vol sma ema rsi supports resistances a
    where "find_support_resistance prices = Inr (supports, resistances)"
      and "analyze_stock prices = Inr (Some a)"
      and "a = \<lparr>r_volatility = vol, r_sma = sma, r_ema = ema, r_rsi = rsi,
                  r_support = (if supports \<noteq> [] then Min (set supports) else Min (set prices)),
                  r_resistance =
                    (if resistances \<noteq> [] then Max (set resistances) else Max (set prices)),
                  r_trend = trend ema sma,
                  r_momentum = momentum_status rsi,
                  r_risk = risk (if sma > 0 then vol / sma else 0),
                  r_signal = final_signal (trend ema sma) rsi
                               (risk (if sma > 0 then vol / sma else 0))\<rparr>"
    by blast
  then show ?thesis by (intro exI [of _ a] exI [of _ supports] exI [of _ resistances]) simp
qed

text \<open>
  The series \<open>[5, 1, 4, 4, 2, 6]\<close> has the supports \<open>1\<close> and \<open>2\<close> and no resistance
  (its only top is flat): the support level is \<open>1\<close>, and the resistance level falls back
  to the maximum \<open>6\<close> of the series.
\<close>

lemma sr_example:
  "find_support_resistance [5, 1, 4, 4, 2, 6] = Inr ([1, 2], [])"
proof -
  have "spec_interior [5, 1, 4, 4, 2, 6] = [1, 2, 3, 4]"
    by (simp add: spec_interior_def upt_rec)
  then show ?thesis
    by (simp add: find_support_resistance_eq spec_is_support_def spec_is_resistance_def)
qed

theorem levels_from_extrema_witness:
  "\<exists>a. analyze_stock [5, 1, 4, 4, 2, 6] = Inr (Some a) \<and> r_support a = 1 \<and> r_resistance a = 6"
proof -
  have ne: "[5, 1, 4, 4, 2, 6 :: real] \<noteq> []"
    by simp
  from levels_from_extrema [OF ne] sr_example show ?thesis
    by auto
qed

text \<open>
  C6. No input makes the core fail: each of the five indicator functions, the risk ratio
  and the whole of \<open>analyze_stock\<close> return a value for every price series (and every
  \<open>alpha\<close>, volatility and mean). In particular no index is out of range, no square root
  is taken of a negative number and no division has a zero divisor: with \<open>sma = 0\<close> the
  risk ratio is \<open>0\<close>, and with \<open>loss = 0\<close> the RSI of a series of at least two points is
  \<open>100\<close>.
\<close>

theorem core_total:
  "(\<exists>v. calculate_volatility prices = Inr v) \<and>
   (\<exists>v. calculate_sma prices = Inr v) \<and>
   (\<exists>v. calculate_ema prices alpha = Inr v) \<and>
   (\<exists>v. calculate_rsi prices = Inr v) \<and>
   (\<exists>sr. find_support_resistance prices = Inr sr) \<and>
   (\<exists>r. risk_ratio vol sma = Inr r) \<and>
   (\<exists>a. analyze_stock prices = Inr a) \<and>
   (sma = 0 \<longrightarrow> risk_ratio vol sma = Inr 0) \<and>
   (2 \<le> length prices \<and> spec_loss prices = 0 \<longrightarrow> calculate_rsi prices = Inr 100)"
proof -
  have vol: "\<exists>v. calculate_volatility prices = Inr v"
    by (simp add: calculate_volatility_eq)
  have sma: "\<exists>v. calculate_sma prices = Inr v"
    by (simp add: calculate_sma_eq)
  have rsi: "\<exists>v. calculate_rsi prices = Inr v"
    by (simp add: calculate_rsi_eq)
  have sr: "\<exists>sr. find_support_resistance prices = Inr sr"
    by (simp add: find_support_resistance_eq)
  have ratio: "\<exists>r. risk_ratio vol sma = Inr r"
    by (simp add: risk_ratio_eq)
  have all: "\<exists>a. analyze_stock prices = Inr a"
  proof (cases "prices = []")
    case True
    then show ?thesis by (simp add: analyze_stock_def)
  next
    case False
    from analyze_stock_closed [OF False] show ?thesis by blast
  qed
  have zero: "sma = 0 \<longrightarrow> risk_ratio vol sma = Inr 0"
    by (simp add: risk_ratio_def)
  have noloss: "2 \<le> length prices \<and> spec_loss prices = 0 \<longrightarrow> calculate_rsi prices = Inr 100"
    by (simp add: calculate_rsi_eq)
  show ?thesis
    by (intro conjI vol sma calculate_ema_total rsi sr ratio all zero noloss)
qed

text \<open>
  A zero mean, and the series \<open>[2, 2]\<close>, which has no loss.
\<close>

theorem core_total_witness:
  "risk_ratio 3 0 = Inr 0 \<and> 2 \<le> length [2, 2 :: real] \<and> spec_loss [2, 2] = 0 \<and>
   calculate_rsi [2, 2] = Inr 100"
proof -
  have l: "spec_loss [2, 2] = 0"
    by (simp add: spec_loss_def spec_deltas_def)
  from core_total [where prices = "[2, 2]" and sma = 0 and vol = 3] l show ?thesis
    by simp
qed

text \<open>
  C7. On a non-empty series \<open>calculate_ema\<close> returns the last value of the recurrence
  \<open>ema\<^sub>0 = prices[0]\<close>, \<open>ema\<^sub>i = alpha * prices[i] + (1 - alpha) * ema\<^sub>i\<^sub>-\<^sub>1\<close> taken in
  index order up to \<open>i = n - 1\<close>; on the empty series it returns \<open>0\<close>; on a one-element
  series \<open>[p]\<close> it returns \<open>p\<close> for every \<open>alpha\<close>.
\<close>

theorem calculate_ema_recurrence:
  "(prices \<noteq> [] \<longrightarrow>
      calculate_ema prices alpha = Inr (spec_ema prices alpha (length prices - 1))) \<and>
   calculate_ema [] alpha = Inr 0 \<and>
   calculate_ema [p] alpha = Inr p"
proof -
  have "calculate_ema [p] alpha = Inr (spec_ema [p] alpha (length [p] - 1))"
    by (rule calculate_ema_eq) simp
  then have one: "calculate_ema [p] alpha = Inr p"
    by simp
  have none: "calculate_ema [] alpha = Inr 0"
    by (simp add: calculate_ema_def)
  from one none show ?thesis
    by (simp add: calculate_ema_eq)
qed

text \<open>
  With \<open>alpha = 1/2\<close> the series \<open>[10, 20, 40]\<close> gives \<open>10\<close>, \<open>15\<close>, \<open>27.5\<close>.
\<close>

theorem calculate_ema_recurrence_witness:
  "[10, 20, 40 :: real] \<noteq> [] \<and> calculate_ema [10, 20, 40] (1 / 2) = Inr (55 / 2) \<and>
   calculate_ema [] (1 / 2) = Inr 0 \<and> calculate_ema [7] (1 / 2) = Inr 7"
proof -
  have "spec_ema [10, 20, 40] (1 / 2) (Suc (Suc 0)) = 55 / 2"
    by simp
  moreover have "length [10, 20, 40 :: real] - 1 = Suc (Suc 0)"
    by simp
  ultimately show ?thesis
    using calculate_ema_recurrence [of "[10, 20, 40]" "1 / 2" 7] by simp
qed

text \<open>
  C8. For every series of at least two points that never decreases (strictly increasing
  series included), \<open>calculate_rsi\<close> returns \<open>100\<close> and \<open>find_support_resistance\<close> returns
  two empty sequences.
\<close>

theorem increasing_series:
  assumes "sorted prices" and "2 \<le> length prices"
  shows "calculate_rsi prices = Inr 100 \<and> find_support_resistance prices = Inr ([], [])"
  using assms by (simp add: sorted_rsi sorted_sr)

text \<open>
  The series \<open>[1, 2, 2, 5]\<close>.
\<close>

theorem increasing_series_witness:
  "sorted [1, 2, 2, 5 :: real] \<and> 2 \<le> length [1, 2, 2, 5 :: real] \<and>
   calculate_rsi [1, 2, 2, 5] = Inr 100 \<and> find_support_resistance [1, 2, 2, 5] = Inr ([], [])"
proof -
  have s: "sorted [1, 2, 2, 5 :: real]"
    by simp
  have n: "2 \<le> length [1, 2, 2, 5 :: real]"
    by simp
  from increasing_series [OF s n] s n show ?thesis
    by simp
qed

text \<open>
  C9. For every non-empty price series, every value among the supports and resistances
  returned by \<open>find_support_resistance\<close> is an element of the series, and so are the
  support and resistance levels of \<open>analyze_stock\<close>.
\<close>

theorem extrema_and_levels_are_prices:
  assumes "prices \<noteq> []"
  shows "\<exists>a supports resistances.
           find_support_resistance prices = Inr (supports, resistances) \<and>
           set supports \<subseteq> set prices \<and> set resistances \<subseteq> set prices \<and>
           analyze_stock prices = Inr (Some a) \<and>
           r_support a \<in> set prices \<and> r_resistance a \<in> set prices"
proof -
  from analyze_stock_closed [OF assms]
  obtain vol sma ema rsi supports resistances a
    where sr: "find_support_resistance prices = Inr (supports, resistances)"
      and an: "analyze_stock prices = Inr (Some a)"
      and a: "a = \<lparr>r_volatility = vol, r_sma = sma, r_ema = ema, r_rsi = rsi,
                  r_support = (if supports \<noteq> [] then Min (set supports) else Min (set prices)),
                  r_resistance =
                    (if resistances \<noteq> [] then Max (set resistances) else Max (set prices)),
                  r_trend = trend ema sma,
                  r_momentum = momentum_status rsi,
                  r_risk = risk (if sma > 0 then vol / sma else 0),
                  r_signal = final_signal (trend ema sma) rsi
                               (risk (if sma > 0 then vol / sma else 0))\<rparr>"
    by blast
  from sr have "supports = map (nth prices) (filter (spec_is_support prices) (spec_interior prices))"
    and "resistances
           = map (nth prices) (filter (spec_is_resistance prices) (spec_interior prices))"
    by (simp_all add: find_support_resistance_eq)
  then have sup: "set supports \<subseteq> set prices" and res: "set resistances \<subseteq> set prices"
    by (simp_all only: interior_values)
  have "Min (set xs) \<in> set xs" if "xs \<noteq> []" for xs :: "real list"
    using that by simp
  moreover have "Max (set xs) \<in> set xs" if "xs \<noteq> []" for xs :: "real list"
    using that by simp
  ultimately have "r_support a \<in> set prices" and "r_resistance a \<in> set prices"
    using a sup res assms by auto
  with sr an sup res show ?thesis by blast
qed

text \<open>
  The series \<open>[5, 1, 4, 4, 2, 6]\<close> again.
\<close>

theorem extrema_and_levels_are_prices_witness:
  "\<exists>a. find_support_resistance [5, 1, 4, 4, 2, 6] = Inr ([1, 2], []) \<and>
       analyze_stock [5, 1, 4, 4, 2, 6] = Inr (Some a) \<and>
       r_support a \<in> set [5, 1, 4, 4, 2, 6] \<and> r_resistance a \<in> set [5, 1, 4, 4, 2, 6]"
proof -
  have ne: "[5, 1, 4, 4, 2, 6 :: real] \<noteq> []"
    by simp
  from extrema_and_levels_are_prices [OF ne] sr_example show ?thesis
    by auto
qed

text \<open>
  C10. For every strictly decreasing series of at least two points \<open>calculate_rsi\<close>
  returns \<open>0\<close>: the gain is \<open>0\<close> and the loss is positive.
\<close>

theorem strictly_decreasing_rsi:
  assumes "sorted_wrt (>) prices" and "2 \<le> length prices"
  shows "calculate_rsi prices = Inr 0"
  using assms by (rule decreasing_rsi)

text \<open>
  The series \<open>[9, 4, 1]\<close>.
\<close>

theorem strictly_decreasing_rsi_witness:
  "sorted_wrt (>) [9, 4, 1 :: real] \<and> 2 \<le> length [9, 4, 1 :: real] \<and>
   calculate_rsi [9, 4, 1] = Inr 0"
proof -
  have s: "sorted_wrt (>) [9, 4, 1 :: real]"
    by simp
  have n: "2 \<le> length [9, 4, 1 :: real]"
    by simp
  from strictly_decreasing_rsi [OF s n] s n show ?thesis
    by simp
qed

end
